theory Spec2Isabelle
  imports
    Complex_Main
    "HOL-Library.Multiset"
    "HOL-Library.Char_ord"
    "HOL-Library.List_Lexorder"
begin

section \<open>The TGV tracker: average departure delay by station\<close>

text \<open>
  The development embeds \<^verbatim>\<open>get_avg_delay_by_station\<close> of \<^verbatim>\<open>supabase_utils.py\<close> and the
  \<^verbatim>\<open>/api/delays\<close> handler \<^verbatim>\<open>get_delays\<close> of \<^verbatim>\<open>main.py\<close>.

  Conventions of the embedding:
  \<^item> a float is a rational number, and NaN is \<open>None\<close> of \<open>rat option\<close>: sums and means are
    exact, rounding is outside the model;
  \<^item> a Python \<^verbatim>\<open>str\<close> is a \<open>string\<close>; strings are ordered lexicographically by character
    code, as Python orders them;
  \<^item> a returned \<^verbatim>\<open>dict\<close> is an association list in the order the source writes its keys;
  \<^item> the module global \<^verbatim>\<open>supabase\<close> and the requests sent to the store are the fields of
    the state \<open>world\<close>, which every call takes and returns; logging only writes, and is left
    out;
  \<^item> an exception raised by the store is \<open>Inl\<close> of its message.

  Two library routines are parameters of the model, because the source leaves them to
  pandas and numpy: \<open>parse_float\<close>, the text-to-number parser behind
  \<^verbatim>\<open>pd.to_numeric(errors='coerce')\<close> (\<open>None\<close> where the text is not numeric), and
  \<open>argsort\<close>, the index sort behind \<^verbatim>\<open>sort_values\<close>, whose default kind is not promised to
  be stable.
\<close>

subsection \<open>Data as the store returns it\<close>

text \<open>The value of a JSON cell of the column \<^verbatim>\<open>retard_moyen_depart\<close>.\<close>

datatype cell = Number rat | Text string | Null

text \<open>One row of \<^verbatim>\<open>select("gare_depart, retard_moyen_depart, service")\<close>; \<open>None\<close> is JSON null.\<close>

record delay_record =
  gare_depart :: "string option"
  retard_moyen_depart :: cell
  service :: "string option"

text \<open>
  The client answers a query on a table with the rows of the table, or raises. The state
  holds the global client handle and the tables queried so far.
\<close>

type_synonym client = "string \<Rightarrow> string + delay_record list"

record world =
  supabase :: "client option"
  requests :: "string list"

text \<open>A row of the aggregated frame: station and mean (\<open>None\<close> is NaN).\<close>

type_synonym avg_row = "string \<times> rat option"

datatype jvalue =
    JStr string
  | JInt int
  | JFloat rat
  | JRecords "avg_row list"
  | JDict "(string \<times> jvalue) list"

type_synonym payload = "(string \<times> jvalue) list"

subsection \<open>Strings\<close>

definition lower_char :: "char \<Rightarrow> char" where
  "lower_char c =
     (if CHR ''A'' \<le> c \<and> c \<le> CHR ''Z'' then char_of (of_char c + (32::nat)) else c)"

text \<open>
  \<^verbatim>\<open>str.lower\<close> on the ASCII letters. No character outside ASCII lowers to \<^verbatim>\<open>a\<close>, \<^verbatim>\<open>s\<close> or
  \<^verbatim>\<open>c\<close>, so the test \<^verbatim>\<open>order.lower() == "asc"\<close> has the value it has in Python.
\<close>

definition lower :: "string \<Rightarrow> string" where
  "lower s = map lower_char s"

fun str_nat :: "nat \<Rightarrow> string" where
  "str_nat n =
     (if n < 10 then [char_of (48 + n)]
      else str_nat (n div 10) @ [char_of (48 + n mod 10)])"

declare str_nat.simps [simp del]

text \<open>\<^verbatim>\<open>str(limit)\<close>, as an f-string formats an integer.\<close>

definition str_int :: "int \<Rightarrow> string" where
  "str_int i = (if i < 0 then CHR ''-'' # str_nat (nat (- i)) else str_nat (nat i))"

subsection \<open>The pandas pipeline\<close>

text \<open>
  \<^verbatim>\<open>pd.to_numeric(..., errors='coerce')\<close> on one cell: a number stays, a text is parsed and
  becomes NaN where it is not numeric, null becomes NaN.
\<close>

definition to_numeric :: "(string \<Rightarrow> rat option) \<Rightarrow> cell \<Rightarrow> rat option" where
  "to_numeric parse_float c =
     (case c of Number x \<Rightarrow> Some x | Text s \<Rightarrow> parse_float s | Null \<Rightarrow> None)"

text \<open>
  \<^verbatim>\<open>groupby('gare_depart')\<close> with its defaults \<^verbatim>\<open>sort=True, dropna=True\<close>: the groups are the
  distinct non-null keys, in ascending key order.
\<close>

definition group_keys :: "(string option \<times> rat option) list \<Rightarrow> string list" where
  "group_keys df = sort (remdups (List.map_filter fst df))"

text \<open>
  \<^verbatim>\<open>.mean()\<close> of one group skips NaN; the mean of no value is NaN. The values are added
  in row order, here without rounding; no property below reorders the summands.
\<close>

definition mean_skipna :: "rat option list \<Rightarrow> rat option" where
  "mean_skipna vs =
     (let xs = List.map_filter id vs
      in if xs = [] then None else Some (sum_list xs / of_nat (length xs)))"

definition groupby_mean :: "(string option \<times> rat option) list \<Rightarrow> avg_row list" where
  "groupby_mean df =
     map (\<lambda>k. (k, mean_skipna (map snd (filter (\<lambda>r. fst r = Some k) df)))) (group_keys df)"

fun non_nan :: "avg_row list \<Rightarrow> (string \<times> rat) list" where
  "non_nan [] = []"
| "non_nan ((k, Some x) # rs) = (k, x) # non_nan rs"
| "non_nan ((k, None) # rs) = non_nan rs"

definition take_rows :: "'a list \<Rightarrow> nat list \<Rightarrow> 'a list" where
  "take_rows xs idx = map (\<lambda>i. xs ! i) idx"

text \<open>
  \<^verbatim>\<open>sort_values(by, ascending)\<close> with the default \<^verbatim>\<open>na_position='last'\<close>: the rows with a
  number are ordered by the index sort of their values (for a descending sort pandas
  reverses the rows, sorts, and reverses the result), and the NaN rows follow in frame
  order.
\<close>

definition sort_values :: "(rat list \<Rightarrow> nat list) \<Rightarrow> bool \<Rightarrow> avg_row list \<Rightarrow> avg_row list" where
  "sort_values argsort ascending df =
     (let rows = non_nan df;
          nan_rows = filter (\<lambda>r. snd r = None) df;
          sorted_rows =
            (if ascending then take_rows rows (argsort (map snd rows))
             else rev (take_rows (rev rows) (argsort (map snd (rev rows)))))
      in map (\<lambda>(k, x). (k, Some x)) sorted_rows @ nan_rows)"

text \<open>\<^verbatim>\<open>head(n)\<close>: the first \<open>n\<close> rows, and for a negative \<open>n\<close> all rows but the last \<open>-n\<close>.\<close>

definition head :: "int \<Rightarrow> 'a list \<Rightarrow> 'a list" where
  "head n xs = (if 0 \<le> n then take (nat n) xs else take (length xs - nat (- n)) xs)"

subsection \<open>get_avg_delay_by_station\<close>

text \<open>
  \<^verbatim>\<open>supabase.table(t).select(...).eq("service", "National").execute()\<close>: the rows of the
  table whose service is National, or the exception of the store.
\<close>

definition execute_select :: "client \<Rightarrow> string \<Rightarrow> string + delay_record list" where
  "execute_select c table_name =
     (case c table_name of
        Inl e \<Rightarrow> Inl e
      | Inr rows \<Rightarrow> Inr (filter (\<lambda>r. service r = Some ''National'') rows))"

text \<open>
  \<^verbatim>\<open>pd.DataFrame(result.data)\<close> with its delay column replaced by \<^verbatim>\<open>pd.to_numeric\<close> of it:
  the two columns the aggregation reads.
\<close>

definition numeric_frame ::
  "(string \<Rightarrow> rat option) \<Rightarrow> delay_record list \<Rightarrow> (string option \<times> rat option) list" where
  "numeric_frame parse_float data =
     map (\<lambda>r. (gare_depart r, to_numeric parse_float (retard_moyen_depart r))) data"

definition get_avg_delay_by_station ::
  "(string \<Rightarrow> rat option) \<Rightarrow> (rat list \<Rightarrow> nat list) \<Rightarrow>
     string \<Rightarrow> int \<Rightarrow> string \<Rightarrow> world \<Rightarrow> payload \<times> world" where
  "get_avg_delay_by_station parse_float argsort table_name limit order w =
     (case supabase w of
        None \<Rightarrow> ([(''error'', JStr ''Supabase client not initialized'')], w)
      | Some c \<Rightarrow>
          (let w' = w\<lparr>requests := requests w @ [table_name]\<rparr> in
           case execute_select c table_name of
             Inl e \<Rightarrow> ([(''error'', JStr e)], w')
           | Inr data \<Rightarrow>
               if data = [] then
                 ([(''data'', JRecords []),
                   (''message'', JStr ''No National service data found'')], w')
               else
                 (let df = numeric_frame parse_float data;
                      ascending = (lower order = ''asc'');
                      avg_delays = head limit (sort_values argsort ascending (groupby_mean df));
                      result_data = avg_delays;
                      order_desc = (if ascending then ''lowest'' else ''highest'')
                  in ([(''data'', JRecords result_data),
                       (''count'', JInt (int (length result_data))),
                       (''table_name'', JStr table_name),
                       (''order'', JStr order),
                       (''service_filter'', JStr ''National''),
                       (''description'',
                          JStr (''Top '' @ str_int limit @ '' National service stations with ''
                                @ order_desc @ '' average delays''))], w'))))"

subsection \<open>The request handler get_delays\<close>

text \<open>
  A query parameter declared \<^verbatim>\<open>int\<close> arrives as text: the framework converts it, and
  answers 422 where the text is no integer or the declared bounds fail.
\<close>

datatype raw_int = Int_value int | Not_int string

datatype http_error = Unprocessable_entity

text \<open>\<^verbatim>\<open>limit: int = Query(default=10, ge=1, le=100)\<close>\<close>

definition validate_limit :: "raw_int option \<Rightarrow> int option" where
  "validate_limit q =
     (case q of
        None \<Rightarrow> Some 10
      | Some (Not_int s) \<Rightarrow> None
      | Some (Int_value n) \<Rightarrow> (if 1 \<le> n \<and> n \<le> 100 then Some n else None))"

text \<open>\<^verbatim>\<open>order: Literal["asc", "desc"] = Query(default="asc")\<close>\<close>

definition validate_order :: "string option \<Rightarrow> string option" where
  "validate_order q =
     (case q of
        None \<Rightarrow> Some ''asc''
      | Some s \<Rightarrow> (if s = ''asc'' \<or> s = ''desc'' then Some s else None))"

text \<open>
  The handler. \<open>execution_time\<close> is the measured duration in milliseconds, which the model
  takes as given.
\<close>

definition get_delays ::
  "(string \<Rightarrow> rat option) \<Rightarrow> (rat list \<Rightarrow> nat list) \<Rightarrow> rat \<Rightarrow>
     string option \<Rightarrow> raw_int option \<Rightarrow> string option \<Rightarrow> world \<Rightarrow>
     (http_error + payload) \<times> world" where
  "get_delays parse_float argsort execution_time table_name_q limit_q order_q w =
     (let table_name = (case table_name_q of None \<Rightarrow> ''tgv-data'' | Some t \<Rightarrow> t) in
      case validate_limit limit_q of
        None \<Rightarrow> (Inl Unprocessable_entity, w)
      | Some limit \<Rightarrow>
          (case validate_order order_q of
             None \<Rightarrow> (Inl Unprocessable_entity, w)
           | Some order \<Rightarrow>
               (let (result, w') =
                      get_avg_delay_by_station parse_float argsort table_name limit order w;
                    order_description =
                      (if order = ''asc'' then ''best (lowest delays)''
                       else ''worst (highest delays)'')
                in (Inr [(''method'', JStr ''pandas''),
                         (''execution_time_ms'', JFloat execution_time),
                         (''table_name'', JStr table_name),
                         (''limit'', JInt limit),
                         (''order'', JStr order),
                         (''description'',
                            JStr (''Top '' @ str_int limit @ '' '' @ order_description
                                  @ '' stations'')),
                         (''result'', JDict result)], w'))))"

subsection \<open>The response of the route\<close>

text \<open>
  The framework encodes the dict the handler returns with
  \<^verbatim>\<open>json.dumps(..., allow_nan=False)\<close>: a NaN anywhere in it raises \<^verbatim>\<open>ValueError\<close>. Every
  other value of a payload can be encoded.
\<close>

fun json_compliant :: "jvalue \<Rightarrow> bool" where
  "json_compliant (JStr s) = True"
| "json_compliant (JInt i) = True"
| "json_compliant (JFloat x) = True"
| "json_compliant (JRecords rs) = list_all (\<lambda>r. snd r \<noteq> None) rs"
| "json_compliant (JDict kvs) = (\<forall>kv\<in>set kvs. json_compliant (snd kv))"

datatype http_response = Ok_200 payload | Unprocessable_422 | Internal_server_error_500

text \<open>
  The route \<^verbatim>\<open>GET /api/delays\<close>: the validation error is answered with status 422, the
  dict of the handler with status 200 when it can be encoded, and the exception of the
  encoder, which nothing catches, with status 500.
\<close>

definition api_delays ::
  "(string \<Rightarrow> rat option) \<Rightarrow> (rat list \<Rightarrow> nat list) \<Rightarrow> rat \<Rightarrow>
     string option \<Rightarrow> raw_int option \<Rightarrow> string option \<Rightarrow> world \<Rightarrow>
     http_response \<times> world" where
  "api_delays parse_float argsort execution_time table_name_q limit_q order_q w =
     (case get_delays parse_float argsort execution_time table_name_q limit_q order_q w of
        (Inl Unprocessable_entity, w') \<Rightarrow> (Unprocessable_422, w')
      | (Inr body, w') \<Rightarrow>
          (if json_compliant (JDict body) then Ok_200 body else Internal_server_error_500, w'))"

subsection \<open>Instances of the library parameters\<close>

text \<open>
  The index sort that keeps equal values in their given order, as insertion sort does
  (numpy's default kind sorts short arrays by insertion). It is the instance at which the
  model is run on concrete inputs.
\<close>

definition stable_argsort :: "rat list \<Rightarrow> nat list" where
  "stable_argsort vs = sort_key (\<lambda>i. vs ! i) [0..<length vs]"

text \<open>
  A parser that reads a non-empty string of decimal digits and refuses every other text;
  on the texts of the examples below it answers as the library's parser does.
\<close>

fun digits_value :: "string \<Rightarrow> nat \<Rightarrow> nat option" where
  "digits_value [] acc = Some acc"
| "digits_value (c # cs) acc =
     (if CHR ''0'' \<le> c \<and> c \<le> CHR ''9''
      then digits_value cs (10 * acc + (of_char c - 48)) else None)"

definition parse_digits :: "string \<Rightarrow> rat option" where
  "parse_digits s = (if s = [] then None else map_option of_nat (digits_value s 0))"

text \<open>
  A record of the National service, and the state of a process whose client is connected
  to a store that holds the table \<^verbatim>\<open>tgv-data\<close> with the given rows and no other table.
\<close>

definition national :: "string \<Rightarrow> cell \<Rightarrow> delay_record" where
  "national k v = \<lparr>gare_depart = Some k, retard_moyen_depart = v, service = Some ''National''\<rparr>"

definition store :: "delay_record list \<Rightarrow> client" where
  "store rows = (\<lambda>t. if t = ''tgv-data'' then Inr rows else Inl ''relation does not exist'')"

definition connected_to :: "delay_record list \<Rightarrow> world" where
  "connected_to rows = \<lparr>supabase = Some (store rows), requests = []\<rparr>"

subsection \<open>Vocabulary of the properties\<close>

text \<open>
  What the properties ask of the index sort: its answer is a permutation of the positions
  of its argument, and reads the argument in non-decreasing order.
\<close>

definition argsort_ok :: "(rat list \<Rightarrow> nat list) \<Rightarrow> bool" where
  "argsort_ok argsort \<longleftrightarrow>
     (\<forall>vs. mset (argsort vs) = mset [0..<length vs] \<and>
           sorted (map (\<lambda>i. vs ! i) (argsort vs)))"

text \<open>The sequence under the key \<^verbatim>\<open>data\<close> of a payload, when it has one.\<close>

definition payload_data :: "payload \<Rightarrow> avg_row list option" where
  "payload_data p = (case map_of p ''data'' of Some (JRecords rs) \<Rightarrow> Some rs | _ \<Rightarrow> None)"

text \<open>The distinct stations of the fetched records, null keys apart.\<close>

definition stations :: "delay_record list \<Rightarrow> string list" where
  "stations data = remdups (List.map_filter gare_depart data)"

text \<open>The stations in the order in which the input first shows them.\<close>

definition first_seen :: "delay_record list \<Rightarrow> string list" where
  "first_seen data = rev (remdups (rev (List.map_filter gare_depart data)))"

text \<open>
  The parseable delay values of the records of station \<open>k\<close>, and the stations that have
  at least one: the valid groups of the specification.
\<close>

definition parsed_values :: "(string \<Rightarrow> rat option) \<Rightarrow> string \<Rightarrow> delay_record list \<Rightarrow> rat list" where
  "parsed_values parse_float k data =
     List.map_filter
       (\<lambda>r. if gare_depart r = Some k then to_numeric parse_float (retard_moyen_depart r)
            else None) data"



section \<open>Properties of the pipeline\<close>

subsection \<open>The index sort\<close>

lemma stable_argsort_ok: "argsort_ok stable_argsort"
  unfolding argsort_ok_def stable_argsort_def
  by (simp add: sorted_sort_key)

lemma argsort_ok_mset: "argsort_ok a \<Longrightarrow> mset (a vs) = mset [0..<length vs]"
  by (simp add: argsort_ok_def)



lemma mset_take_rows:
  assumes "mset idx = mset [0..<length xs]"
  shows "mset (take_rows xs idx) = mset xs"
proof -
  have "mset (take_rows xs idx) = image_mset (\<lambda>i. xs ! i) (mset idx)"
    by (simp add: take_rows_def)
  also have "\<dots> = mset (map (\<lambda>i. xs ! i) [0..<length xs])"
    using assms by simp
  also have "\<dots> = mset xs"
    by (simp add: map_nth)
  finally show ?thesis .
qed


lemma mset_argsorted:
  assumes "argsort_ok a"
  shows "mset (take_rows rows (a (map f rows))) = mset rows"
proof (rule mset_take_rows)
  show "mset (a (map f rows)) = mset [0..<length rows]"
    using argsort_ok_mset[OF assms, of "map f rows"] by (simp only: length_map)
qed


subsection \<open>Rows with and without a mean\<close>

lemma non_nan_append: "non_nan (xs @ ys) = non_nan xs @ non_nan ys"
  by (induction xs rule: non_nan.induct) simp_all

lemma non_nan_with_mean: "non_nan (map (\<lambda>(k, x). (k, Some x)) rs) = rs"
  by (induction rs) auto

lemma non_nan_nan_rows: "non_nan (filter (\<lambda>r. snd r = None) df) = []"
  by (induction df rule: non_nan.induct) simp_all

lemma nan_rows_with_mean: "filter (\<lambda>r. snd r = None) (map (\<lambda>(k, x). (k, Some x)) rs) = []"
  by (induction rs) auto

lemma mset_split_rows:
  "mset (map (\<lambda>(k, x). (k, Some x)) (non_nan df)) + mset (filter (\<lambda>r. snd r = None) df) = mset df"
  by (induction df rule: non_nan.induct) simp_all


lemma set_non_nan: "(k, x) \<in> set (non_nan df) \<longleftrightarrow> (k, Some x) \<in> set df"
  by (induction df rule: non_nan.induct) auto

subsection \<open>sort_values\<close>

lemma non_nan_sort_values:
  "non_nan (sort_values a asc df) =
     (if asc then take_rows (non_nan df) (a (map snd (non_nan df)))
      else rev (take_rows (rev (non_nan df)) (a (map snd (rev (non_nan df))))))"
  by (simp add: sort_values_def Let_def non_nan_append non_nan_with_mean non_nan_nan_rows)

lemma nan_rows_sort_values:
  "filter (\<lambda>r. snd r = None) (sort_values a asc df) = filter (\<lambda>r. snd r = None) df"
  by (simp add: sort_values_def Let_def nan_rows_with_mean)

lemma sort_values_split:
  "sort_values a asc df =
     map (\<lambda>(k, x). (k, Some x)) (non_nan (sort_values a asc df)) @ filter (\<lambda>r. snd r = None) df"
  unfolding non_nan_sort_values by (simp add: sort_values_def Let_def)

lemma mset_non_nan_sort_values:
  assumes "argsort_ok a"
  shows "mset (non_nan (sort_values a asc df)) = mset (non_nan df)"
  unfolding non_nan_sort_values
  using mset_argsorted[OF assms, of "non_nan df" snd] mset_argsorted[OF assms, of "rev (non_nan df)" snd]
  by simp

lemma mset_sort_values:
  assumes "argsort_ok a"
  shows "mset (sort_values a asc df) = mset df"
proof -
  have "mset (sort_values a asc df) =
      image_mset (\<lambda>(k, x). (k, Some x)) (mset (non_nan (sort_values a asc df)))
        + mset (filter (\<lambda>r. snd r = None) df)"
    by (subst sort_values_split) simp
  also have "\<dots> = mset (map (\<lambda>(k, x). (k, Some x)) (non_nan df)) + mset (filter (\<lambda>r. snd r = None) df)"
    by (simp add: mset_non_nan_sort_values[OF assms])
  also have "\<dots> = mset df" by (rule mset_split_rows)
  finally show ?thesis .
qed


lemma set_sort_values: "argsort_ok a \<Longrightarrow> set (sort_values a asc df) = set df"
  using mset_sort_values[of a asc df] by (metis set_mset_mset)



subsection \<open>head\<close>

lemma head_take: "\<exists>m. head n xs = take m xs"
  by (auto simp: head_def)



subsection \<open>groupby and mean\<close>

lemma set_map_filter_fst: "set (List.map_filter fst df) = {k. Some k \<in> fst ` set df}"
  by (induction df) (auto simp: List.map_filter_def)

lemma set_group_keys: "set (group_keys df) = {k. Some k \<in> fst ` set df}"
  by (simp add: group_keys_def set_map_filter_fst)

lemma distinct_group_keys: "distinct (group_keys df)"
  by (simp add: group_keys_def)

lemma sorted_group_keys: "sorted (group_keys df)"
  by (simp add: group_keys_def)

lemma group_keys_set_cong:
  assumes "set df = set df'"
  shows "group_keys df = group_keys df'"
proof -
  have "set (group_keys df) = set (group_keys df')"
    by (simp add: set_group_keys assms)
  then show ?thesis
    using sorted_distinct_set_unique[OF sorted_group_keys distinct_group_keys
                                        sorted_group_keys distinct_group_keys]
    by blast
qed

lemma keys_groupby_mean: "map fst (groupby_mean df) = group_keys df"
  by (simp add: groupby_mean_def comp_def)





lemma group_values_parsed:
  "List.map_filter id (map snd (filter (\<lambda>r. fst r = Some k) (numeric_frame p data)))
     = parsed_values p k data"
  by (induction data) (auto simp: numeric_frame_def parsed_values_def List.map_filter_def)

lemma groupby_mean_row:
  assumes "(k, m) \<in> set (groupby_mean (numeric_frame p data))"
  shows "m = (if parsed_values p k data = [] then None
              else Some (sum_list (parsed_values p k data) / of_nat (length (parsed_values p k data))))"
  using assms
  by (auto simp: groupby_mean_def mean_skipna_def Let_def group_values_parsed)


subsection \<open>The payload of get_avg_delay_by_station\<close>

lemma payload_not_initialized:
  assumes "supabase w = None"
  shows "get_avg_delay_by_station p a t l ord w =
           ([(''error'', JStr ''Supabase client not initialized'')], w)"
  using assms by (simp add: get_avg_delay_by_station_def)

lemma payload_store_raises:
  assumes "supabase w = Some c" and "execute_select c t = Inl e"
  shows "fst (get_avg_delay_by_station p a t l ord w) = [(''error'', JStr e)]"
  using assms by (simp add: get_avg_delay_by_station_def Let_def)

lemma payload_no_rows:
  assumes "supabase w = Some c" and "execute_select c t = Inr []"
  shows "fst (get_avg_delay_by_station p a t l ord w) =
           [(''data'', JRecords []), (''message'', JStr ''No National service data found'')]"
  using assms by (simp add: get_avg_delay_by_station_def Let_def)

lemma payload_rows:
  assumes "supabase w = Some c" and "execute_select c t = Inr data" and "data \<noteq> []"
  shows "\<exists>d. fst (get_avg_delay_by_station p a t l ord w) =
           [(''data'', JRecords (head l (sort_values a (lower ord = ''asc'')
                                    (groupby_mean (numeric_frame p data))))),
            (''count'', JInt (int (length (head l (sort_values a (lower ord = ''asc'')
                                    (groupby_mean (numeric_frame p data))))))),
            (''table_name'', JStr t),
            (''order'', JStr ord),
            (''service_filter'', JStr ''National''),
            (''description'', JStr d)]"
  using assms by (simp add: get_avg_delay_by_station_def Let_def)

lemma payload_data_rows:
  assumes "supabase w = Some c" and "execute_select c t = Inr data" and "data \<noteq> []"
  shows "payload_data (fst (get_avg_delay_by_station p a t l ord w)) =
           Some (head l (sort_values a (lower ord = ''asc'') (groupby_mean (numeric_frame p data))))"
proof -
  obtain d where "fst (get_avg_delay_by_station p a t l ord w) =
           [(''data'', JRecords (head l (sort_values a (lower ord = ''asc'')
                                    (groupby_mean (numeric_frame p data))))),
            (''count'', JInt (int (length (head l (sort_values a (lower ord = ''asc'')
                                    (groupby_mean (numeric_frame p data))))))),
            (''table_name'', JStr t),
            (''order'', JStr ord),
            (''service_filter'', JStr ''National''),
            (''description'', JStr d)]"
    using payload_rows[OF assms] by blast
  then show ?thesis by (simp add: payload_data_def)
qed


lemma payload_no_error:
  assumes "supabase w = Some c" and "execute_select c t = Inr data"
  shows "map_of (fst (get_avg_delay_by_station p a t l ord w)) ''error'' = None"
proof (cases "data = []")
  case True
  then show ?thesis using payload_no_rows[of w c t] assms by simp
next
  case False
  then obtain d where "fst (get_avg_delay_by_station p a t l ord w) =
           [(''data'', JRecords (head l (sort_values a (lower ord = ''asc'')
                                    (groupby_mean (numeric_frame p data))))),
            (''count'', JInt (int (length (head l (sort_values a (lower ord = ''asc'')
                                    (groupby_mean (numeric_frame p data))))))),
            (''table_name'', JStr t),
            (''order'', JStr ord),
            (''service_filter'', JStr ''National''),
            (''description'', JStr d)]"
    using payload_rows[OF assms] by blast
  then show ?thesis by simp
qed

lemma payload_data_no_rows:
  assumes "supabase w = Some c" and "execute_select c t = Inr []"
  shows "payload_data (fst (get_avg_delay_by_station p a t l ord w)) = Some []"
  using payload_no_rows[OF assms] by (simp add: payload_data_def)

lemma supabase_unchanged: "supabase (snd (get_avg_delay_by_station p a t l ord w)) = supabase w"
  by (simp add: get_avg_delay_by_station_def Let_def split: option.splits sum.splits)

lemma payload_reads_supabase_only:
  assumes "supabase w = supabase w'"
  shows "fst (get_avg_delay_by_station p a t l ord w) = fst (get_avg_delay_by_station p a t l ord w')"
  using assms by (simp add: get_avg_delay_by_station_def Let_def split: option.splits sum.splits)









lemma set_head_subset: "set (head l xs) \<subseteq> set xs"
  by (auto simp: head_def dest: in_set_takeD)

subsection \<open>The example store\<close>

lemma supabase_connected: "supabase (connected_to rows) = Some (store rows)"
  by (simp add: connected_to_def)

lemma execute_select_store:
  "execute_select (store rows) ''tgv-data'' = Inr (filter (\<lambda>r. service r = Some ''National'') rows)"
  by (simp add: execute_select_def store_def)

lemma execute_select_national:
  assumes "\<forall>r\<in>set rows. service r = Some ''National''"
  shows "execute_select (store rows) ''tgv-data'' = Inr rows"
  using assms by (simp add: execute_select_store filter_id_conv)

subsection \<open>The handler\<close>







subsection \<open>The order argument\<close>



subsection \<open>The stable index sort keeps equal values in frame order\<close>

lemma stable_take_rows:
  "filter (\<lambda>r. f r = x) (take_rows rows (stable_argsort (map f rows))) = filter (\<lambda>r. f r = x) rows"
proof -
  let ?key = "\<lambda>i. map f rows ! i"
  let ?idx = "sort_key ?key [0..<length rows]"
  have "filter (\<lambda>r. f r = x) (take_rows rows (stable_argsort (map f rows)))
          = map (\<lambda>i. rows ! i) (filter (\<lambda>i. f (rows ! i) = x) ?idx)"
    by (simp add: take_rows_def stable_argsort_def filter_map comp_def)
  also have "filter (\<lambda>i. f (rows ! i) = x) ?idx = filter (\<lambda>i. ?key i = x) ?idx"
    by (rule filter_cong) auto
  also have "filter (\<lambda>i. ?key i = x) ?idx = filter (\<lambda>i. ?key i = x) [0..<length rows]"
    by (rule sort_key_stable)
  also have "filter (\<lambda>i. ?key i = x) [0..<length rows]
               = filter (\<lambda>i. f (rows ! i) = x) [0..<length rows]"
    by (rule filter_cong) auto
  also have "map (\<lambda>i. rows ! i) (filter (\<lambda>i. f (rows ! i) = x) [0..<length rows])
               = filter (\<lambda>r. f r = x) (map (\<lambda>i. rows ! i) [0..<length rows])"
    by (simp add: filter_map comp_def)
  also have "map (\<lambda>i. rows ! i) [0..<length rows] = rows"
    by (rule map_nth)
  finally show ?thesis .
qed

lemma filter_with_mean:
  "filter (\<lambda>r. snd r = Some x) (map (\<lambda>(k, x). (k, Some x)) rs)
     = map (\<lambda>(k, x). (k, Some x)) (filter (\<lambda>r. snd r = x) rs)"
  by (induction rs) auto

lemma with_mean_filter_non_nan:
  "map (\<lambda>(k, x). (k, Some x)) (filter (\<lambda>r. snd r = x) (non_nan df))
     = filter (\<lambda>r. snd r = Some x) df"
  by (induction df rule: non_nan.induct) auto

lemma stable_sort_values_filter:
  "filter (\<lambda>r. snd r = v) (sort_values stable_argsort asc df) = filter (\<lambda>r. snd r = v) df"
proof (cases v)
  case None
  then show ?thesis
    by (simp add: sort_values_def Let_def nan_rows_with_mean)
next
  case (Some x)
  have rows: "filter (\<lambda>r. snd r = x)
                (if asc then take_rows (non_nan df) (stable_argsort (map snd (non_nan df)))
                 else rev (take_rows (rev (non_nan df)) (stable_argsort (map snd (rev (non_nan df))))))
              = filter (\<lambda>r. snd r = x) (non_nan df)"
    by (simp add: stable_take_rows rev_filter[symmetric])
  have "filter (\<lambda>r. snd r = Some x) (sort_values stable_argsort asc df)
          = map (\<lambda>(k, x). (k, Some x)) (filter (\<lambda>r. snd r = x) (non_nan df))"
    unfolding sort_values_def Let_def filter_append filter_with_mean rows
    by (auto simp: filter_empty_conv)
  then show ?thesis
    using Some by (simp add: with_mean_filter_non_nan)
qed

lemma filter_take_prefix: "\<exists>m'. filter P (take m xs) = take m' (filter P xs)"
proof (induction xs arbitrary: m)
  case Nil
  then show ?case by simp
next
  case (Cons x xs)
  show ?case
  proof (cases m)
    case 0
    then show ?thesis by (intro exI[of _ 0]) simp
  next
    case (Suc j)
    obtain m' where m': "filter P (take j xs) = take m' (filter P xs)"
      using Cons.IH by blast
    show ?thesis
    proof (cases "P x")
      case True
      then show ?thesis using Suc m' by (intro exI[of _ "Suc m'"]) simp
    next
      case False
      then show ?thesis using Suc m' by (intro exI[of _ m']) simp
    qed
  qed
qed

lemma strict_sorted_groupby_mean: "sorted_wrt (<) (map fst (groupby_mean df))"
  by (simp add: keys_groupby_mean strict_sorted_iff sorted_group_keys distinct_group_keys)

text \<open>
  Whatever the means are, the stable index sort leaves rows with the same mean in the
  order of the frame it sorts.
\<close>

lemma stable_ties_keep_frame_order:
  assumes "sorted_wrt (<) (map fst df)"
  shows "sorted_wrt (<) (map fst (filter (\<lambda>r. snd r = v)
           (head l (sort_values stable_argsort asc df))))"
proof -
  obtain m where m: "head l (sort_values stable_argsort asc df)
                       = take m (sort_values stable_argsort asc df)"
    using head_take by blast
  obtain m' where "filter (\<lambda>r. snd r = v) (take m (sort_values stable_argsort asc df))
                     = take m' (filter (\<lambda>r. snd r = v) (sort_values stable_argsort asc df))"
    using filter_take_prefix by blast
  then have e: "filter (\<lambda>r. snd r = v) (head l (sort_values stable_argsort asc df))
                  = take m' (filter (\<lambda>r. snd r = v) df)"
    by (simp add: m stable_sort_values_filter)
  have "sorted_wrt (\<lambda>r s. fst r < fst s) df"
    using assms by (simp add: sorted_wrt_map)
  then have "sorted_wrt (\<lambda>r s. fst r < fst s) (take m' (filter (\<lambda>r. snd r = v) df))"
    by (intro sorted_wrt_take sorted_wrt_filter)
  then show ?thesis
    unfolding e by (simp add: sorted_wrt_map)
qed

section \<open>The claims\<close>




text \<open>
  C2, as the specification states it: groups with exactly equal means keep the order in
  which the input first shows them. The code does not: the input below shows \<open>B\<close> before
  \<open>A\<close>, both with mean 5, and the output lists \<open>A\<close> before \<open>B\<close>, because
  \<^verbatim>\<open>groupby\<close> emits its groups in ascending key order.
\<close>

theorem tie_order_not_first_seen:
  "first_seen [national ''B'' (Number 5), national ''A'' (Number 5)] = [''B'', ''A''] \<and>
   payload_data (fst (get_avg_delay_by_station parse_digits stable_argsort ''tgv-data'' 10 ''asc''
     (connected_to [national ''B'' (Number 5), national ''A'' (Number 5)])))
     = Some [(''A'', Some 5), (''B'', Some 5)]"
  by code_simp

text \<open>
  C2, amended: when two or more groups have exactly equal means, the output lists them in
  ascending station order, the order in which \<^verbatim>\<open>groupby\<close> hands the groups to the sort,
  provided the index sort is stable; this holds in both sort directions. The order in
  which the input first shows the groups is not preserved.
\<close>

theorem ties_in_station_order:
  assumes "supabase w = Some c"
    and "execute_select c table_name = Inr data"
  shows "\<exists>out. payload_data (fst (get_avg_delay_by_station parse_float stable_argsort
                    table_name limit order w)) = Some out \<and>
           (\<forall>v. sorted_wrt (<) (map fst (filter (\<lambda>r. snd r = v) out)))"
proof (cases "data = []")
  case True
  then have "payload_data (fst (get_avg_delay_by_station parse_float stable_argsort
                   table_name limit order w)) = Some []"
    using payload_data_no_rows[OF assms(1)] assms(2) by simp
  then show ?thesis by simp
next
  case False
  show ?thesis
    using payload_data_rows[OF assms False]
          stable_ties_keep_frame_order[OF strict_sorted_groupby_mean]
    by simp
qed

theorem ties_in_station_order_witness:
  "\<exists>out. payload_data (fst (get_avg_delay_by_station parse_digits stable_argsort
               ''tgv-data'' 10 ''desc''
               (connected_to [national ''B'' (Number 5), national ''A'' (Number 5),
                              national ''C'' (Number 7)]))) = Some out \<and>
      (\<forall>v. sorted_wrt (<) (map fst (filter (\<lambda>r. snd r = v) out)))"
proof (rule ties_in_station_order[OF supabase_connected])
  show "execute_select (store [national ''B'' (Number 5), national ''A'' (Number 5),
                               national ''C'' (Number 7)]) ''tgv-data''
          = Inr [national ''B'' (Number 5), national ''A'' (Number 5), national ''C'' (Number 7)]"
    by (rule execute_select_national) (simp add: national_def)
qed

text \<open>In a descending sort too, the stable index sort lists \<open>A\<close> before \<open>B\<close>.\<close>

lemma tie_descending_station_order:
  "payload_data (fst (get_avg_delay_by_station parse_digits stable_argsort ''tgv-data'' 10 ''desc''
     (connected_to [national ''B'' (Number 5), national ''A'' (Number 5), national ''C'' (Number 7)])))
     = Some [(''C'', Some 7), (''A'', Some 5), (''B'', Some 5)]"
  by code_simp







text \<open>
  The mean of a station is taken over its parseable values. Each entry of the returned
  sequence whose station has a parseable value carries the arithmetic mean of the
  parseable values of that station, the values of the other records playing no part;
  and the payload of get_avg_delay_by_station is not an error.
\<close>

lemma mean_of_parseable_values:
  assumes "argsort_ok argsort"
    and "supabase w = Some c"
    and "execute_select c table_name = Inr data"
  shows "map_of (fst (get_avg_delay_by_station parse_float argsort
                    table_name limit order w)) ''error'' = None \<and>
         (\<exists>out. payload_data (fst (get_avg_delay_by_station parse_float argsort
                    table_name limit order w)) = Some out \<and>
            (\<forall>(k, m)\<in>set out. parsed_values parse_float k data \<noteq> [] \<longrightarrow>
               m = Some (sum_list (parsed_values parse_float k data)
                          / of_nat (length (parsed_values parse_float k data)))))"
proof (cases "data = []")
  case True
  then have "payload_data (fst (get_avg_delay_by_station parse_float argsort
                    table_name limit order w)) = Some []"
    using payload_data_no_rows[OF assms(2)] assms(3) by simp
  then show ?thesis
    using payload_no_error[OF assms(2,3)] by simp
next
  case False
  let ?df = "groupby_mean (numeric_frame parse_float data)"
  let ?out = "head limit (sort_values argsort (lower order = ''asc'') ?df)"
  have "set ?out \<subseteq> set ?df"
    using set_head_subset[of limit "sort_values argsort (lower order = ''asc'') ?df"]
    by (simp add: set_sort_values[OF assms(1)])
  then have "\<forall>(k, m)\<in>set ?out. parsed_values parse_float k data \<noteq> [] \<longrightarrow>
               m = Some (sum_list (parsed_values parse_float k data)
                          / of_nat (length (parsed_values parse_float k data)))"
    using groupby_mean_row[of _ _ parse_float data] by fastforce
  then show ?thesis
    using payload_no_error[OF assms(2,3)] payload_data_rows[OF assms(2,3) False] by simp
qed

lemma mean_of_parseable_values_example:
  "map_of (fst (get_avg_delay_by_station parse_digits stable_argsort ''tgv-data'' 10 ''asc''
             (connected_to [national ''A'' (Number 10), national ''A'' (Text ''bad''),
                         national ''A'' (Number 20)]))) ''error'' = None \<and>
   (\<exists>out. payload_data (fst (get_avg_delay_by_station parse_digits stable_argsort
                    ''tgv-data'' 10 ''asc''
                    (connected_to [national ''A'' (Number 10), national ''A'' (Text ''bad''),
                                national ''A'' (Number 20)]))) = Some out \<and>
      (\<forall>(k, m)\<in>set out.
          parsed_values parse_digits k [national ''A'' (Number 10), national ''A'' (Text ''bad''),
                                        national ''A'' (Number 20)] \<noteq> [] \<longrightarrow>
          m = Some (sum_list (parsed_values parse_digits k
                      [national ''A'' (Number 10), national ''A'' (Text ''bad''),
                       national ''A'' (Number 20)])
                    / of_nat (length (parsed_values parse_digits k
                      [national ''A'' (Number 10), national ''A'' (Text ''bad''),
                       national ''A'' (Number 20)])))))"
proof (rule mean_of_parseable_values[OF stable_argsort_ok supabase_connected])
  show "execute_select (store [national ''A'' (Number 10), national ''A'' (Text ''bad''),
                               national ''A'' (Number 20)]) ''tgv-data''
          = Inr [national ''A'' (Number 10), national ''A'' (Text ''bad''),
                 national ''A'' (Number 20)]"
    by (rule execute_select_national) (simp add: national_def)
qed

text \<open>The example of the specification: the values 10, \<^verbatim>\<open>bad\<close>, 20 have mean 15.\<close>

lemma mean_of_10_bad_20:
  "payload_data (fst (get_avg_delay_by_station parse_digits stable_argsort ''tgv-data'' 10 ''asc''
     (connected_to [national ''A'' (Number 10), national ''A'' (Text ''bad''),
                 national ''A'' (Number 20)]))) = Some [(''A'', Some 15)]"
  by code_simp

text \<open>With a parseable value in every station, the request is answered with status 200.\<close>

lemma request_succeeds_on_mixed_station:
  "fst (api_delays parse_digits stable_argsort 3 None None None
     (connected_to [national ''A'' (Number 10), national ''A'' (Text ''bad''),
                    national ''A'' (Number 20)]))
     = Ok_200 (projr (fst (get_delays parse_digits stable_argsort 3 None None None
         (connected_to [national ''A'' (Number 10), national ''A'' (Text ''bad''),
                        national ''A'' (Number 20)]))))"
  by code_simp

text \<open>
  C5: a record whose delay is not numeric does not affect the mean of its station, and
  the request does not fail because of such records. The first part holds (lemma
  \<open>mean_of_parseable_values\<close>). The second fails where a station has no parseable value:
  below, the only record of station \<open>A\<close> has the delay \<^verbatim>\<open>x\<close>, the aggregation returns \<open>A\<close>
  with a NaN mean, the handler passes it on, and the encoding of the response raises, so
  that the request is answered with status 500.
\<close>

theorem request_fails_on_all_nan_station:
  "parsed_values parse_digits ''A'' [national ''A'' (Text ''x'')] = [] \<and>
   payload_data (fst (get_avg_delay_by_station parse_digits stable_argsort ''tgv-data'' 10 ''asc''
     (connected_to [national ''A'' (Text ''x'')]))) = Some [(''A'', None)] \<and>
   fst (api_delays parse_digits stable_argsort 3 None None None
     (connected_to [national ''A'' (Text ''x'')])) = Internal_server_error_500"
  by code_simp

text \<open>
  C6, as the specification states it: when the fetched record set is empty the result has
  an empty sequence, a count field equal to 0 and a message. The payload of the code has
  no count field.
\<close>

theorem no_rows_payload_has_no_count:
  "fst (get_avg_delay_by_station parse_digits stable_argsort ''tgv-data'' 10 ''asc'' (connected_to []))
     = [(''data'', JRecords []), (''message'', JStr ''No National service data found'')] \<and>
   map_of (fst (get_avg_delay_by_station parse_digits stable_argsort ''tgv-data'' 10 ''asc''
     (connected_to []))) ''count'' \<noteq> Some (JInt 0)"
  by code_simp

text \<open>
  C6, amended: when the fetched record set is empty, the payload has an empty sequence and
  the message \<^verbatim>\<open>No National service data found\<close>, which tells it from the other payloads;
  it has no error field and no count field.
\<close>

theorem no_rows_payload:
  assumes "supabase w = Some c"
    and "execute_select c table_name = Inr []"
  shows "payload_data (fst (get_avg_delay_by_station parse_float argsort
            table_name limit order w)) = Some [] \<and>
         map_of (fst (get_avg_delay_by_station parse_float argsort
            table_name limit order w)) ''message'' = Some (JStr ''No National service data found'') \<and>
         map_of (fst (get_avg_delay_by_station parse_float argsort
            table_name limit order w)) ''error'' = None \<and>
         map_of (fst (get_avg_delay_by_station parse_float argsort
            table_name limit order w)) ''count'' = None"
  using payload_no_rows[OF assms] by (simp add: payload_data_def)

theorem no_rows_payload_witness:
  "payload_data (fst (get_avg_delay_by_station parse_digits stable_argsort ''tgv-data'' 10 ''asc''
      (connected_to [\<lparr>gare_depart = Some ''Bruxelles'', retard_moyen_depart = Number 4,
                   service = Some ''International''\<rparr>]))) = Some [] \<and>
   map_of (fst (get_avg_delay_by_station parse_digits stable_argsort ''tgv-data'' 10 ''asc''
      (connected_to [\<lparr>gare_depart = Some ''Bruxelles'', retard_moyen_depart = Number 4,
                   service = Some ''International''\<rparr>]))) ''message''
     = Some (JStr ''No National service data found'') \<and>
   map_of (fst (get_avg_delay_by_station parse_digits stable_argsort ''tgv-data'' 10 ''asc''
      (connected_to [\<lparr>gare_depart = Some ''Bruxelles'', retard_moyen_depart = Number 4,
                   service = Some ''International''\<rparr>]))) ''error'' = None \<and>
   map_of (fst (get_avg_delay_by_station parse_digits stable_argsort ''tgv-data'' 10 ''asc''
      (connected_to [\<lparr>gare_depart = Some ''Bruxelles'', retard_moyen_depart = Number 4,
                   service = Some ''International''\<rparr>]))) ''count'' = None"
proof (rule no_rows_payload[OF supabase_connected])
  show "execute_select (store [\<lparr>gare_depart = Some ''Bruxelles'', retard_moyen_depart = Number 4,
                   service = Some ''International''\<rparr>]) ''tgv-data'' = Inr []"
    by (simp add: execute_select_store)
qed



text \<open>
  C8: a failure of the data source leaves get_avg_delay_by_station as an error payload.
  Without a client the payload is the error \<^verbatim>\<open>Supabase client not initialized\<close> and the
  state is unchanged: no request is sent and nothing is aggregated. When the store raises
  during the fetch, the payload is the error with the message of the exception.
\<close>

theorem source_failure_is_error_payload:
  "(supabase w = None \<longrightarrow>
      get_avg_delay_by_station parse_float argsort table_name limit order w
        = ([(''error'', JStr ''Supabase client not initialized'')], w)) \<and>
   (supabase w = Some c \<and> c table_name = Inl e \<longrightarrow>
      get_avg_delay_by_station parse_float argsort table_name limit order w
        = ([(''error'', JStr e)], w\<lparr>requests := requests w @ [table_name]\<rparr>))"
  by (simp add: get_avg_delay_by_station_def execute_select_def Let_def)

theorem source_failure_is_error_payload_witness:
  "get_avg_delay_by_station parse_digits stable_argsort ''tgv-data'' 10 ''asc''
       \<lparr>supabase = None, requests = []\<rparr>
     = ([(''error'', JStr ''Supabase client not initialized'')],
        \<lparr>supabase = None, requests = []\<rparr>) \<and>
   get_avg_delay_by_station parse_digits stable_argsort ''tgv'' 10 ''asc'' (connected_to [])
     = ([(''error'', JStr ''relation does not exist'')],
        (connected_to [])\<lparr>requests := requests (connected_to []) @ [''tgv'']\<rparr>)"
  using source_failure_is_error_payload[where w = "\<lparr>supabase = None, requests = []\<rparr>"
          and parse_float = parse_digits and argsort = stable_argsort
          and table_name = "''tgv-data''" and limit = 10 and order = "''asc''"]
        source_failure_is_error_payload[where w = "connected_to []" and c = "store []"
          and e = "''relation does not exist''"
          and parse_float = parse_digits and argsort = stable_argsort
          and table_name = "''tgv''" and limit = 10 and order = "''asc''"]
  by (simp add: connected_to_def store_def)

text \<open>
  C9: the aggregation is deterministic and keeps no state of its own. The payload is a
  function of the arguments, the client handle and the rows the store holds; a call
  leaves the client handle as it was, so a second call with the same arguments, made in
  the state the first call left, returns the identical payload, the order of the
  sequence included.
\<close>

theorem second_call_same_payload:
  "fst (get_avg_delay_by_station parse_float argsort table_name limit order
          (snd (get_avg_delay_by_station parse_float argsort table_name limit order w)))
     = fst (get_avg_delay_by_station parse_float argsort table_name limit order w)"
  by (rule payload_reads_supabase_only) (rule supabase_unchanged)



text \<open>The order \<^verbatim>\<open>ascending\<close> returns the highest mean first.\<close>

lemma order_ascending_sorts_descending:
  "lower ''ascending'' \<noteq> ''asc'' \<and>
   payload_data (fst (get_avg_delay_by_station parse_digits stable_argsort
            ''tgv-data'' 10 ''ascending''
            (connected_to [national ''A'' (Number 10), national ''A'' (Number 20),
                        national ''B'' (Number 5)])))
     = Some [(''A'', Some 15), (''B'', Some 5)]"
  by code_simp

end
